theory Spec2Isabelle
  imports Complex_Main
begin

section \<open>Quadrotor simulation: dynamics, rotor mixing and controller\<close>

text \<open>
  The notebooks of the repository define a planar and a full (3-D) quadrotor dynamics
  model, a PD altitude controller with its inverse rotor mixing, and a jump trajectory.
  This theory embeds those definitions and proves properties of them.

  Conventions of the embedding.
  \<^item> Python and numpy floats are real numbers: rounding and overflow are not modelled.
    The reals have no \<open>inf\<close> and no \<open>nan\<close>. Where numpy would produce one without
    raising (an array divided by zero, the square root of a negative number), the model
    returns \<open>Inl NonFinite\<close> and follows the computation no further.
  \<^item> A numpy array of one dimension is a list of reals, one of two dimensions a list of
    rows. A Python exception is a value \<open>Inl e\<close> of the result type \<open>error + 'a\<close>.
  \<^item> The module-level globals \<open>p\<close> and \<open>controller_p\<close> are explicit arguments.
  \<^item> What the notebooks import from outside (scipy's \<open>solve_ivp\<close>, symforce's \<open>Rot3\<close>,
    the state-vector packing of \<open>QuadrotorState\<close>) is collected in the record
    \<open>externals\<close>, a parameter of every definition that uses it.
\<close>

subsection \<open>Errors\<close>

datatype error = ValueError | ZeroDivisionError | LinAlgError | IndexError | NonFinite

definition bind_err :: "error + 'a \<Rightarrow> ('a \<Rightarrow> error + 'b) \<Rightarrow> error + 'b" where
  "bind_err m f = (case m of Inl e \<Rightarrow> Inl e | Inr x \<Rightarrow> f x)"

text \<open>A \<open>for\<close> loop over a list of indices whose body may raise.\<close>

fun fold_err :: "('i \<Rightarrow> 's \<Rightarrow> error + 's) \<Rightarrow> 'i list \<Rightarrow> 's \<Rightarrow> error + 's" where
  "fold_err body [] s = Inr s"
| "fold_err body (i # is) s = bind_err (body i s) (fold_err body is)"

text \<open>Division of two Python floats raises on a zero divisor.\<close>

definition py_div :: "real \<Rightarrow> real \<Rightarrow> error + real" where
  "py_div a b = (if b = 0 then Inl ZeroDivisionError else Inr (a / b))"

subsection \<open>The numpy operations the notebooks use\<close>

type_synonym vec = "real list"
type_synonym mat = "real list list"

definition np_square :: "vec \<Rightarrow> vec" where
  "np_square xs = map (\<lambda>x. x ^ 2) xs"

definition np_scale :: "real \<Rightarrow> vec \<Rightarrow> vec" where
  "np_scale c xs = map (\<lambda>x. c * x) xs"

text \<open>
  Elementwise sum and difference of two arrays of the same length. (numpy also
  broadcasts an array of length one; the model raises for every length mismatch.)
\<close>

definition np_add :: "vec \<Rightarrow> vec \<Rightarrow> error + vec" where
  "np_add xs ys =
     (if length xs = length ys then Inr (map2 (+) xs ys) else Inl ValueError)"

definition np_sub :: "vec \<Rightarrow> vec \<Rightarrow> error + vec" where
  "np_sub xs ys =
     (if length xs = length ys then Inr (map2 (-) xs ys) else Inl ValueError)"

text \<open>
  A numpy scalar or array divided by a float: a zero divisor gives \<open>inf\<close> or \<open>nan\<close> and a
  warning, no exception.
\<close>

definition np_div :: "real \<Rightarrow> real \<Rightarrow> error + real" where
  "np_div x d = (if d = 0 then Inl NonFinite else Inr (x / d))"

definition np_true_divide :: "vec \<Rightarrow> real \<Rightarrow> error + vec" where
  "np_true_divide xs d = (if d = 0 then Inl NonFinite else Inr (map (\<lambda>x. x / d) xs))"

text \<open>\<open>np.sqrt\<close> gives \<open>nan\<close> for a negative entry.\<close>

definition np_sqrt :: "vec \<Rightarrow> error + vec" where
  "np_sqrt xs = (if \<exists>x \<in> set xs. x < 0 then Inl NonFinite else Inr (map sqrt xs))"

definition dot :: "vec \<Rightarrow> vec \<Rightarrow> real" where
  "dot xs ys = sum_list (map2 (*) xs ys)"

text \<open>The product of a matrix and a vector of the right length.\<close>

definition times_vec :: "mat \<Rightarrow> vec \<Rightarrow> vec" where
  "times_vec A x = map (\<lambda>r. dot r x) A"

definition np_transpose :: "mat \<Rightarrow> mat" where
  "np_transpose A =
     (case A of [] \<Rightarrow> [] | r # _ \<Rightarrow> map (\<lambda>j. map (\<lambda>row. row ! j) A) [0..<length r])"

text \<open>\<open>A @ x\<close> for a matrix and a one-dimensional array, \<open>A @ B\<close> for two matrices.\<close>

definition matvec :: "mat \<Rightarrow> vec \<Rightarrow> error + vec" where
  "matvec A x =
     (if \<forall>r \<in> set A. length r = length x then Inr (map (\<lambda>r. dot r x) A)
      else Inl ValueError)"

definition matmul :: "mat \<Rightarrow> mat \<Rightarrow> error + mat" where
  "matmul A B =
     (if \<forall>r \<in> set A. length r = length B
      then Inr (map (\<lambda>r. map (\<lambda>c. dot r c) (np_transpose B)) A)
      else Inl ValueError)"

text \<open>
  \<open>np.cross\<close> of two arrays of length three. (numpy also accepts arrays of length
  two; the model raises for every other length.)
\<close>

definition np_cross :: "vec \<Rightarrow> vec \<Rightarrow> error + vec" where
  "np_cross a b =
     (case (a, b) of
        ([a1, a2, a3], [b1, b2, b3]) \<Rightarrow>
          Inr [a2 * b3 - a3 * b2, a3 * b1 - a1 * b3, a1 * b2 - a2 * b1]
      | _ \<Rightarrow> Inl ValueError)"

text \<open>
  \<open>np.linalg.inv\<close>: the inverse of a square matrix, \<open>LinAlgError\<close> for a matrix that is
  not square or is singular. The inverse is computed here as the adjugate divided by
  the determinant, the determinant by expansion along the first row.
\<close>

fun del :: "nat \<Rightarrow> 'a list \<Rightarrow> 'a list" where
  "del _ [] = []"
| "del 0 (x # xs) = xs"
| "del (Suc n) (x # xs) = x # del n xs"

function det :: "mat \<Rightarrow> real" where
  "det [] = 1"
| "det (r # rs) =
     sum_list (map (\<lambda>j. (- 1) ^ j * (r ! j) * det (map (del j) rs)) [0..<length r])"
  by pat_completeness auto
termination
  by (relation "measure length") auto

definition minor :: "mat \<Rightarrow> nat \<Rightarrow> nat \<Rightarrow> mat" where
  "minor A i j = map (del j) (del i A)"

definition adjugate :: "mat \<Rightarrow> mat" where
  "adjugate A =
     map (\<lambda>i. map (\<lambda>j. (- 1) ^ (i + j) * det (minor A j i)) [0..<length A])
       [0..<length A]"

definition is_square :: "mat \<Rightarrow> bool" where
  "is_square A = list_all (\<lambda>r. length r = length A) A"

definition linalg_inv :: "mat \<Rightarrow> error + mat" where
  "linalg_inv A =
     (if \<not> is_square A \<or> det A = 0 then Inl LinAlgError
      else Inr (map (map (\<lambda>c. c / det A)) (adjugate A)))"

text \<open>A matrix of \<open>n\<close> rows and \<open>m\<close> columns.\<close>

definition has_shape :: "nat \<Rightarrow> nat \<Rightarrow> mat \<Rightarrow> bool" where
  "has_shape n m A = (length A = n \<and> list_all (\<lambda>r. length r = m) A)"

subsection \<open>Parameters\<close>

text \<open>
  The dataclass \<open>Params\<close>. The planar notebook declares \<open>inertia\<close> a float, the
  controller notebook a 3x3 matrix; the record is polymorphic in that field.
\<close>

record 'i Params =
  mass :: real
  inertia :: 'i
  rotor_diameter :: real
  static_thrust_coefficient :: real
  static_torque_coefficient :: real
  arm_length :: real
  g :: real
  rho :: real

definition rotor_model :: "'i Params \<Rightarrow> real \<Rightarrow> real" where
  "rotor_model p static_coefficient =
     rho p * static_coefficient * (rotor_diameter p ^ 4) / (4 * pi ^ 2)"

definition k_thrust :: "'i Params \<Rightarrow> real" where
  "k_thrust p = rotor_model p (static_thrust_coefficient p)"

definition k_torque :: "'i Params \<Rightarrow> real" where
  "k_torque p = rotor_model p (static_torque_coefficient p)"

text \<open>\<open>p = Params()\<close>: the defaults of the controller notebook.\<close>

definition Params_default :: "mat Params" where
  "Params_default =
     \<lparr> mass = 1352 / 1000,
       inertia = [[98 / 10000, 0, 0], [0, 1002 / 100000, 0], [0, 0, 186 / 10000]],
       rotor_diameter = 10 * (254 / 10000),
       static_thrust_coefficient = 14553 / 100000,
       static_torque_coefficient = 1047 / 100000,
       arm_length = (3814 / 10000) / 2,
       g = 980665 / 100000,
       rho = 1225 / 1000 \<rparr>"

text \<open>The defaults of the planar notebook: the same but for the scalar inertia.\<close>

definition Params_planar_default :: "real Params" where
  "Params_planar_default =
     \<lparr> mass = 1352 / 1000,
       inertia = 98 / 1000,
       rotor_diameter = 10 * (254 / 10000),
       static_thrust_coefficient = 14553 / 100000,
       static_torque_coefficient = 1047 / 100000,
       arm_length = (3814 / 10000) / 2,
       g = 980665 / 100000,
       rho = 1225 / 1000 \<rparr>"

subsection \<open>Rotor thrust and the mixing matrix\<close>

text \<open>
  \<open>rotor_thrust_model\<close> is the same static method in \<open>PlanarQuadrotorDynamics\<close> and in
  \<open>FullQuadrotorDynamics\<close>.
\<close>

definition rotor_thrust_model :: "'i Params \<Rightarrow> vec \<Rightarrow> vec" where
  "rotor_thrust_model p rotor_rates = np_scale (k_thrust p) (np_square rotor_rates)"

text \<open>The literal \<open>mixing_matrix\<close> of \<open>FullQuadrotorDynamics.step\<close>.\<close>

definition FullQuadrotorDynamics_mixing_matrix :: "real \<Rightarrow> real \<Rightarrow> mat" where
  "FullQuadrotorDynamics_mixing_matrix L k =
     [[1, 1, 1, 1],
      [0, L, 0, -1 * L],
      [-1 * L, 0, L, 0],
      [k, -1 * k, k, -1 * k]]"

text \<open>
  The first part of \<open>FullQuadrotorDynamics.step\<close>, up to \<open>u1 = u[0][0]\<close> and
  \<open>u2 = u[1:4]\<close>: the four thrusts are unpacked, stacked into a column, and multiplied
  by the mixing matrix. \<open>u2\<close> is a column of three rows.
\<close>

definition FullQuadrotorDynamics_step_u :: "'i Params \<Rightarrow> vec \<Rightarrow> error + real \<times> mat" where
  "FullQuadrotorDynamics_step_u p rotor_rates =
     (case rotor_thrust_model p rotor_rates of
        [F1, F2, F3, F4] \<Rightarrow>
          (let forces = [[F1], [F2], [F3], [F4]];
               L = arm_length p
           in bind_err (py_div (k_thrust p) (k_torque p)) (\<lambda>k.
              bind_err (matmul (FullQuadrotorDynamics_mixing_matrix L k) forces) (\<lambda>u.
                case u of
                  (u1 # _) # rest \<Rightarrow> Inr (u1, take 3 rest)
                | _ \<Rightarrow> Inl IndexError)))
      | _ \<Rightarrow> Inl ValueError)"

text \<open>
  The thrust and torque of \<open>PlanarQuadrotorDynamics.step\<close>: only
  \<open>input.rotor_rates[:2]\<close> is read, and unpacked into two thrusts.
\<close>

definition PlanarQuadrotorDynamics_step_u :: "'i Params \<Rightarrow> vec \<Rightarrow> error + real \<times> real" where
  "PlanarQuadrotorDynamics_step_u p rotor_rates =
     (case rotor_thrust_model p (take 2 rotor_rates) of
        [F1, F2] \<Rightarrow>
          (let u1 = F1 + F2;
               u2 = (F1 - F2) * (arm_length p / 2)
           in Inr (u1, u2))
      | _ \<Rightarrow> Inl ValueError)"

subsection \<open>The controller\<close>

text \<open>
  The dataclass \<open>ControllerParams\<close>; \<open>np.diag([0, 0, 100])\<close> and \<open>np.diag([0, 0, 20])\<close>
  are the default gains.
\<close>

record ControllerParams =
  K_p :: mat
  K_d :: mat
  rotor_rate_min :: real
  rotor_rate_max :: real

definition ControllerParams_default :: ControllerParams where
  "ControllerParams_default =
     \<lparr> K_p = [[0, 0, 0], [0, 0, 0], [0, 0, 100]],
       K_d = [[0, 0, 0], [0, 0, 0], [0, 0, 20]],
       rotor_rate_min = 180,
       rotor_rate_max = 600 \<rparr>"

text \<open>The literal \<open>mixing_matrix\<close> of \<open>Controller.rotor_rates_from_u\<close>.\<close>

definition Controller_mixing_matrix :: "real \<Rightarrow> real \<Rightarrow> mat" where
  "Controller_mixing_matrix L k =
     [[1, 1, 1, 1],
      [0, L, 0, -1 * L],
      [-1 * L, 0, L, 0],
      [k, -1 * k, k, -1 * k]]"

text \<open>
  The body of the first loop of \<open>rotor_rates_from_u\<close>:
  \<^verbatim>\<open>if force_array[f] < 0: force_array[f] = 0\<close>.
\<close>

definition zero_negative_force :: "nat \<Rightarrow> vec \<Rightarrow> error + vec" where
  "zero_negative_force f force_array =
     (if f < length force_array
      then Inr (if force_array ! f < 0 then force_array[f := 0] else force_array)
      else Inl IndexError)"

text \<open>
  The body of the second loop: two \<open>if\<close> statements in a row, the second reading what
  the first may have written.
\<close>

definition limit_rotor_rate :: "ControllerParams \<Rightarrow> nat \<Rightarrow> vec \<Rightarrow> error + vec" where
  "limit_rotor_rate cp w math_omegas =
     (if w < length math_omegas
      then
        (let m1 = (if math_omegas ! w < rotor_rate_min cp
                   then math_omegas[w := rotor_rate_min cp] else math_omegas);
             m2 = (if m1 ! w > rotor_rate_max cp
                   then m1[w := rotor_rate_max cp] else m1)
         in Inr m2)
      else Inl IndexError)"

text \<open>
  What the two \<open>if\<close> statements of the second loop do to one rate.
\<close>

definition limited :: "ControllerParams \<Rightarrow> real \<Rightarrow> real" where
  "limited cp x =
     (let x1 = (if x < rotor_rate_min cp then rotor_rate_min cp else x)
      in if x1 > rotor_rate_max cp then rotor_rate_max cp else x1)"

definition rotor_rates_from_u :: "'i Params \<Rightarrow> ControllerParams \<Rightarrow> vec \<Rightarrow> error + vec" where
  "rotor_rates_from_u p cp u =
     (let L = arm_length p
      in bind_err (py_div (k_thrust p) (k_torque p)) (\<lambda>k.
         bind_err (linalg_inv (Controller_mixing_matrix L k)) (\<lambda>inverse_matrix.
         bind_err (matvec inverse_matrix u) (\<lambda>force_array.
         bind_err (fold_err zero_negative_force [0..<4] force_array) (\<lambda>force_array.
         bind_err (np_true_divide force_array (k_thrust p)) (\<lambda>quotient.
         bind_err (np_sqrt quotient) (\<lambda>math_omegas.
         fold_err (limit_rotor_rate cp) [0..<4] math_omegas)))))))"

text \<open>
  \<open>TrajectoryState\<close>, \<open>QuadrotorState\<close> and \<open>QuadrotorCommands\<close> are imported by the
  notebooks; the records hold the fields the notebooks read and write. A \<open>Rot3\<close> is
  represented by its storage, the quaternion \<open>[x, y, z, w]\<close>.
\<close>

type_synonym Rot3 = vec

record TrajectoryState =
  time :: real
  position :: vec
  velocity :: vec

record QuadrotorState =
  position :: vec
  orientation :: Rot3
  velocity :: vec
  angular_velocity :: vec

record QuadrotorCommands =
  rotor_rates :: vec

text \<open>
  \<open>Controller.step\<close>, in three parts: the commanded acceleration, the input vector
  \<open>u = [u_1, 0, 0, 0]\<close>, and the conversion to rotor rates.
\<close>

definition Controller_commanded_acceleration ::
  "ControllerParams \<Rightarrow> TrajectoryState \<Rightarrow> QuadrotorState \<Rightarrow> error + vec" where
  "Controller_commanded_acceleration cp trajectory state =
     (let desired_position = TrajectoryState.position trajectory;
          desired_velocity = TrajectoryState.velocity trajectory;
          actual_position = QuadrotorState.position state;
          actual_velocity = QuadrotorState.velocity state
      in bind_err (np_sub desired_velocity actual_velocity) (\<lambda>e_v.
         bind_err (matvec (K_d cp) e_v) (\<lambda>d_term.
         bind_err (np_sub desired_position actual_position) (\<lambda>e_p.
         bind_err (matvec (K_p cp) e_p) (\<lambda>p_term.
         np_add d_term p_term)))))"

definition Controller_u ::
  "'i Params \<Rightarrow> ControllerParams \<Rightarrow> TrajectoryState \<Rightarrow> QuadrotorState \<Rightarrow> error + vec" where
  "Controller_u p cp trajectory state =
     bind_err (Controller_commanded_acceleration cp trajectory state)
       (\<lambda>commanded_acceleration.
          if 2 < length commanded_acceleration
          then (let u_1 = mass p * (g p + commanded_acceleration ! 2);
                    u_2 = [0, 0, 0]
                in Inr (u_1 # u_2))
          else Inl IndexError)"


subsection \<open>What the notebooks import\<close>

text \<open>
  The result of \<open>scipy.integrate.solve_ivp\<close>: the time points, the solution with one
  row per state component and one column per time point, the status code and the
  success flag.
\<close>

record ode_result =
  sol_t :: vec
  sol_y :: mat
  sol_status :: int
  sol_success :: bool

text \<open>
  The functions the notebooks call and do not define. \<open>solve_ivp\<close> takes the derivative
  function, the time span and the initial state vector; it may raise, and so may the
  derivative function it is given. \<open>to_state_vector\<close> and \<open>from_state_vector\<close> are the
  methods of \<open>QuadrotorState\<close>, \<open>Rot3_mul\<close> is the product \<open>R * v\<close> of a \<open>Rot3\<close> and a
  vector, \<open>to_yaw_pitch_roll\<close> the method of \<open>Rot3\<close>.
\<close>

record externals =
  solve_ivp :: "(real \<Rightarrow> vec \<Rightarrow> error + vec) \<Rightarrow> real \<times> real \<Rightarrow> vec \<Rightarrow> error + ode_result"
  to_state_vector :: "QuadrotorState \<Rightarrow> vec"
  from_state_vector :: "vec \<Rightarrow> QuadrotorState"
  Rot3_mul :: "Rot3 \<Rightarrow> vec \<Rightarrow> vec"
  to_yaw_pitch_roll :: "Rot3 \<Rightarrow> real \<times> real \<times> real"

subsection \<open>Quaternion kinematics\<close>

text \<open>
  \<open>dRot3\<close>, the same function in both notebooks. The storage of \<open>R\<close> is unpacked into
  \<open>(q0, q1, q2, q3)\<close>; the result is \<open>Rot3.from_storage\<close> of \<open>(G.T @ omega) / 2\<close>.
\<close>

definition dRot3 :: "Rot3 \<Rightarrow> vec \<Rightarrow> error + Rot3" where
  "dRot3 R omega =
     (case R of
        [q0, q1, q2, q3] \<Rightarrow>
          (let G = [[q3, q2, - q1, - q0],
                    [- q2, q3, q0, - q1],
                    [q1, - q0, q3, - q2]]
           in bind_err (matvec (np_transpose G) omega) (\<lambda>product.
              Inr (map (\<lambda>x. x / 2) product)))
      | _ \<Rightarrow> Inl ValueError)"

subsection \<open>The full dynamics\<close>

text \<open>
  \<open>FullQuadrotorDynamics.state_derivative\<close>. \<open>u2\<close> is the column that \<open>step\<close> passes;
  \<open>M = np.transpose(u2)[0]\<close> is its only row after transposition.
\<close>

definition FullQuadrotorDynamics_state_derivative ::
  "externals \<Rightarrow> mat Params \<Rightarrow> QuadrotorState \<Rightarrow> real \<Rightarrow> mat \<Rightarrow> error + QuadrotorState" where
  "FullQuadrotorDynamics_state_derivative ext p state u1 u2 =
     (let RAB = orientation state
      in bind_err (np_add [0, 0, mass p * g p * - 1] (Rot3_mul ext RAB [0, 0, u1])) (\<lambda>total.
         bind_err (np_true_divide total (mass p)) (\<lambda>accel.
         bind_err (case np_transpose u2 of [] \<Rightarrow> Inl IndexError | row # _ \<Rightarrow> Inr row) (\<lambda>M.
         bind_err (linalg_inv (inertia p)) (\<lambda>inertia_inv.
         bind_err (matvec (inertia p) (angular_velocity state)) (\<lambda>momentum.
         bind_err (np_cross (angular_velocity state) momentum) (\<lambda>gyro.
         bind_err (np_sub M gyro) (\<lambda>torque.
         bind_err (matvec inertia_inv torque) (\<lambda>angular_accel.
         bind_err (dRot3 (orientation state) (angular_velocity state)) (\<lambda>quat_dot.
         Inr \<lparr> position = velocity state,
               orientation = quat_dot,
               velocity = accel,
               angular_velocity = angular_accel \<rparr>))))))))))"

subsection \<open>The planar dynamics\<close>

text \<open>
  \<open>PlanarQuadrotorDynamics.state_derivative\<close>; \<open>phi\<close> is the second component of
  \<open>to_yaw_pitch_roll()\<close>.
\<close>

definition PlanarQuadrotorDynamics_state_derivative ::
  "externals \<Rightarrow> real Params \<Rightarrow> QuadrotorState \<Rightarrow> real \<Rightarrow> real \<Rightarrow> error + QuadrotorState" where
  "PlanarQuadrotorDynamics_state_derivative ext p state u1 u2 =
     (let phi = fst (snd (to_yaw_pitch_roll ext (orientation state)))
      in bind_err (np_div (u1 * - 1 * sin phi) (mass p)) (\<lambda>accel_x.
         bind_err (np_div (u1 * cos phi) (mass p)) (\<lambda>lift.
         bind_err (np_div u2 (inertia p)) (\<lambda>pitch_accel.
         bind_err (dRot3 (orientation state) (angular_velocity state)) (\<lambda>quat_dot.
         Inr \<lparr> position = velocity state,
               orientation = quat_dot,
               velocity = [accel_x, 0, (- 1 * g p) + lift],
               angular_velocity = [0, pitch_accel, 0] \<rparr>)))))"

subsection \<open>Stepping the dynamics\<close>

text \<open>
  The dynamics object: \<open>self.state\<close> and \<open>self.dt\<close>, the two attributes of the base
  class that \<open>step\<close> reads and writes. Whatever else the base class keeps in the
  object is the extension part of the record; the steps are defined on every extension.
\<close>

record Dynamics =
  state :: QuadrotorState
  dt :: real

text \<open>\<open>solution['y'][:, -1]\<close>: the last entry of every row.\<close>

definition last_column :: "mat \<Rightarrow> error + vec" where
  "last_column rows = (if \<exists>r \<in> set rows. r = [] then Inl IndexError else Inr (map last rows))"

text \<open>
  The local function \<open>state_derivative(t, state)\<close> of \<open>FullQuadrotorDynamics.step\<close>:
  it unpacks the state vector, calls the class's \<open>state_derivative\<close> with the \<open>u1\<close> and
  \<open>u2\<close> of the enclosing call, and packs the result. Its argument \<open>t\<close> is not used.
\<close>

definition FullQuadrotorDynamics_step_state_derivative ::
  "externals \<Rightarrow> mat Params \<Rightarrow> real \<Rightarrow> mat \<Rightarrow> real \<Rightarrow> vec \<Rightarrow> error + vec" where
  "FullQuadrotorDynamics_step_state_derivative ext p u1 u2 t state_vec =
     bind_err (FullQuadrotorDynamics_state_derivative ext p
                 (from_state_vector ext state_vec) u1 u2)
       (\<lambda>derivative. Inr (to_state_vector ext derivative))"

text \<open>
  \<open>FullQuadrotorDynamics.step\<close>. The solver integrates the local function over
  \<open>(0, self.dt)\<close> from the packed current state; the last column of its solution,
  unpacked, becomes \<open>self.state\<close>. The object after the call is returned; its \<open>state\<close>
  is what the method returns. The argument \<open>t\<close> is not used.
\<close>

definition FullQuadrotorDynamics_step ::
  "externals \<Rightarrow> mat Params \<Rightarrow> 'a Dynamics_scheme \<Rightarrow> real \<Rightarrow> QuadrotorCommands
     \<Rightarrow> error + 'a Dynamics_scheme" where
  "FullQuadrotorDynamics_step ext p self t input =
     bind_err (FullQuadrotorDynamics_step_u p (rotor_rates input)) (\<lambda>(u1, u2).
       let state_vector = to_state_vector ext (state self)
       in bind_err (solve_ivp ext (FullQuadrotorDynamics_step_state_derivative ext p u1 u2)
                      (0, dt self) state_vector) (\<lambda>solution.
          bind_err (last_column (sol_y solution)) (\<lambda>final.
          Inr (self\<lparr> state := from_state_vector ext final \<rparr>))))"

text \<open>The same two definitions of \<open>PlanarQuadrotorDynamics\<close>.\<close>

definition PlanarQuadrotorDynamics_step_state_derivative ::
  "externals \<Rightarrow> real Params \<Rightarrow> real \<Rightarrow> real \<Rightarrow> real \<Rightarrow> vec \<Rightarrow> error + vec" where
  "PlanarQuadrotorDynamics_step_state_derivative ext p u1 u2 t state_vec =
     bind_err (PlanarQuadrotorDynamics_state_derivative ext p
                 (from_state_vector ext state_vec) u1 u2)
       (\<lambda>derivative. Inr (to_state_vector ext derivative))"

definition PlanarQuadrotorDynamics_step ::
  "externals \<Rightarrow> real Params \<Rightarrow> 'a Dynamics_scheme \<Rightarrow> real \<Rightarrow> QuadrotorCommands
     \<Rightarrow> error + 'a Dynamics_scheme" where
  "PlanarQuadrotorDynamics_step ext p self t input =
     bind_err (PlanarQuadrotorDynamics_step_u p (rotor_rates input)) (\<lambda>(u1, u2).
       let state_vector = to_state_vector ext (state self)
       in bind_err (solve_ivp ext (PlanarQuadrotorDynamics_step_state_derivative ext p u1 u2)
                      (0, dt self) state_vector) (\<lambda>solution.
          bind_err (last_column (sol_y solution)) (\<lambda>final.
          Inr (self\<lparr> state := from_state_vector ext final \<rparr>))))"

subsection \<open>Construction\<close>

text \<open>
  \<open>Params\<close> and \<open>ControllerParams\<close> are dataclasses without a \<open>__post_init__\<close>: the
  generated \<open>__init__\<close> stores its arguments. \<open>FullQuadrotorDynamics.__init__\<close> and
  \<open>PlanarQuadrotorDynamics.__init__\<close> only call \<open>super().__init__()\<close>, whose result is
  the argument \<open>base\<close> here; neither reads the parameters.
\<close>

definition Params_init ::
  "real \<Rightarrow> 'i \<Rightarrow> real \<Rightarrow> real \<Rightarrow> real \<Rightarrow> real \<Rightarrow> real \<Rightarrow> real \<Rightarrow> error + 'i Params" where
  "Params_init m i d ct cq l gr r =
     Inr \<lparr> mass = m, inertia = i, rotor_diameter = d, static_thrust_coefficient = ct,
           static_torque_coefficient = cq, arm_length = l, g = gr, rho = r \<rparr>"

definition ControllerParams_init ::
  "mat \<Rightarrow> mat \<Rightarrow> real \<Rightarrow> real \<Rightarrow> error + ControllerParams" where
  "ControllerParams_init kp kd lo hi =
     Inr \<lparr> K_p = kp, K_d = kd, rotor_rate_min = lo, rotor_rate_max = hi \<rparr>"

definition FullQuadrotorDynamics_init :: "Dynamics \<Rightarrow> error + Dynamics" where
  "FullQuadrotorDynamics_init base = Inr base"

definition PlanarQuadrotorDynamics_init :: "Dynamics \<Rightarrow> error + Dynamics" where
  "PlanarQuadrotorDynamics_init base = Inr base"

subsection \<open>The trajectory and the simulation loop\<close>







subsection \<open>An instance of the imported functions\<close>

text \<open>
  The theorems below hold for every value of \<open>externals\<close>. The examples need one. This
  one packs a state as position, orientation, velocity, angular velocity; rotates a
  vector by the rotation matrix of the quaternion \<open>[x, y, z, w]\<close>; reads the pitch of a
  rotation about the y axis; and integrates with one explicit Euler step where the
  derivative at the initial state is a vector of reals. An exception of the
  derivative function is passed on, and so is \<open>Inl NonFinite\<close>: the examples say
  nothing about what an integrator does with a derivative that is not finite.
\<close>

definition pack_state :: "QuadrotorState \<Rightarrow> vec" where
  "pack_state s = position s @ orientation s @ velocity s @ angular_velocity s"

definition unpack_state :: "vec \<Rightarrow> QuadrotorState" where
  "unpack_state v =
     \<lparr> position = take 3 v,
       orientation = take 4 (drop 3 v),
       velocity = take 3 (drop 7 v),
       angular_velocity = drop 10 v \<rparr>"

definition quat_rotate :: "Rot3 \<Rightarrow> vec \<Rightarrow> vec" where
  "quat_rotate q v =
     (case q of
        [x, y, z, w] \<Rightarrow>
          times_vec
            [[1 - 2 * (y * y + z * z), 2 * (x * y - z * w), 2 * (x * z + y * w)],
             [2 * (x * y + z * w), 1 - 2 * (x * x + z * z), 2 * (y * z - x * w)],
             [2 * (x * z - y * w), 2 * (y * z + x * w), 1 - 2 * (x * x + y * y)]] v
      | _ \<Rightarrow> v)"

definition y_axis_yaw_pitch_roll :: "Rot3 \<Rightarrow> real \<times> real \<times> real" where
  "y_axis_yaw_pitch_roll q = (0, 2 * arctan (q ! 1 / q ! 3), 0)"

definition euler_ivp ::
  "(real \<Rightarrow> vec \<Rightarrow> error + vec) \<Rightarrow> real \<times> real \<Rightarrow> vec \<Rightarrow> error + ode_result" where
  "euler_ivp f t_span y0 =
     (case t_span of
        (t0, tf) \<Rightarrow>
          (case f t0 y0 of
             Inl e \<Rightarrow> Inl e
           | Inr f0 \<Rightarrow>
               Inr \<lparr> sol_t = [t0, tf],
                     sol_y = map2 (\<lambda>v d. [v, v + (tf - t0) * d]) y0 f0,
                     sol_status = 0, sol_success = True \<rparr>))"

definition externals_example :: externals where
  "externals_example =
     \<lparr> solve_ivp = euler_ivp,
       to_state_vector = pack_state,
       from_state_vector = unpack_state,
       Rot3_mul = quat_rotate,
       to_yaw_pitch_roll = y_axis_yaw_pitch_roll \<rparr>"

text \<open>The vehicle at rest at the origin, level, and a dynamics object holding it.\<close>

definition state_at_rest :: QuadrotorState where
  "state_at_rest =
     \<lparr> position = [0, 0, 0], orientation = [0, 0, 0, 1], velocity = [0, 0, 0],
       angular_velocity = [0, 0, 0] \<rparr>"

definition dynamics_at_rest :: Dynamics where
  "dynamics_at_rest = \<lparr> state = state_at_rest, dt = 1 / 100 \<rparr>"

subsection \<open>The equations of motion as the specification writes them\<close>

text \<open>
  \<open>d(velocity)/dt = (gravity_vector + orientation.rotate([0, 0, u1])) / mass\<close> with the
  gravity vector \<open>[0, 0, -mass * g]\<close>.
\<close>

definition eom_velocity_dot :: "externals \<Rightarrow> 'i Params \<Rightarrow> QuadrotorState \<Rightarrow> real \<Rightarrow> vec" where
  "eom_velocity_dot ext p s u1 =
     map (\<lambda>x. x / mass p)
       (map2 (+) [0, 0, - (mass p * g p)] (Rot3_mul ext (orientation s) [0, 0, u1]))"

definition cross3 :: "vec \<Rightarrow> vec \<Rightarrow> vec" where
  "cross3 a b =
     [a ! 1 * b ! 2 - a ! 2 * b ! 1, a ! 2 * b ! 0 - a ! 0 * b ! 2, a ! 0 * b ! 1 - a ! 1 * b ! 0]"

text \<open>
  The right-hand side \<open>u2 - omega x (I omega)\<close> of Euler's equation. The angular
  acceleration \<open>I^-1 (u2 - omega x (I omega))\<close> is the vector whose product with \<open>I\<close>
  is this right-hand side.
\<close>

definition eom_net_torque :: "mat Params \<Rightarrow> QuadrotorState \<Rightarrow> vec \<Rightarrow> vec" where
  "eom_net_torque p s u2 =
     map2 (-) u2 (cross3 (angular_velocity s) (times_vec (inertia p) (angular_velocity s)))"

section \<open>Properties\<close>

lemma bind_err_Inl [simp]: "bind_err (Inl e) f = Inl e"
  by (simp add: bind_err_def)

lemma bind_err_Inr [simp]: "bind_err (Inr x) f = f x"
  by (simp add: bind_err_def)

lemma upt_4: "[0..<4] = [0, Suc 0, 2, 3]"
  by (simp add: upt_rec)

lemma k_torque_default_pos: "0 < k_torque Params_default"
  by (simp add: k_torque_def rotor_model_def Params_default_def)

lemma k_thrust_default_pos: "0 < k_thrust Params_default"
  by (simp add: k_thrust_def rotor_model_def Params_default_def)

subsection \<open>Forward rotor mixing\<close>

lemma FullQuadrotorDynamics_step_u_eq:
  assumes "k_torque p \<noteq> 0"
  shows "FullQuadrotorDynamics_step_u p [r1, r2, r3, r4] =
           Inr (k_thrust p * r1 ^ 2 + k_thrust p * r2 ^ 2 + k_thrust p * r3 ^ 2
                  + k_thrust p * r4 ^ 2,
                [[arm_length p * (k_thrust p * r2 ^ 2 - k_thrust p * r4 ^ 2)],
                 [arm_length p * (k_thrust p * r3 ^ 2 - k_thrust p * r1 ^ 2)],
                 [k_thrust p / k_torque p
                    * (k_thrust p * r1 ^ 2 - k_thrust p * r2 ^ 2 + k_thrust p * r3 ^ 2
                         - k_thrust p * r4 ^ 2)]])"
  using assms
  by (simp add: FullQuadrotorDynamics_step_u_def rotor_thrust_model_def np_scale_def
      np_square_def py_div_def matmul_def FullQuadrotorDynamics_mixing_matrix_def
      np_transpose_def dot_def Let_def algebra_simps)


text \<open>
  C1. For four rotor rates \<open>r1 .. r4\<close> the forward mixing of the full dynamics
  computes the thrusts \<open>F_i = k_thrust * r_i^2\<close> and from them
  \<open>u1 = F1 + F2 + F3 + F4\<close>, \<open>u2x = L * (F2 - F4)\<close>, \<open>u2y = L * (F3 - F1)\<close> and
  \<open>u2z = k * (F1 - F2 + F3 - F4)\<close> with \<open>L\<close> the arm length and
  \<open>k = k_thrust / k_torque\<close>. (The quotient \<open>k\<close> exists when \<open>k_torque\<close> is not zero;
  otherwise the division raises.)
\<close>

theorem forward_mixing_equations:
  assumes "k_torque p \<noteq> 0"
  shows "rotor_thrust_model p [r1, r2, r3, r4] =
           [k_thrust p * r1 ^ 2, k_thrust p * r2 ^ 2, k_thrust p * r3 ^ 2, k_thrust p * r4 ^ 2]
       \<and> FullQuadrotorDynamics_step_u p [r1, r2, r3, r4] =
           (let F1 = k_thrust p * r1 ^ 2; F2 = k_thrust p * r2 ^ 2;
                F3 = k_thrust p * r3 ^ 2; F4 = k_thrust p * r4 ^ 2;
                L = arm_length p; k = k_thrust p / k_torque p
            in Inr (F1 + F2 + F3 + F4,
                    [[L * (F2 - F4)], [L * (F3 - F1)], [k * (F1 - F2 + F3 - F4)]]))"
  using assms
  by (simp add: FullQuadrotorDynamics_step_u_def rotor_thrust_model_def np_scale_def
      np_square_def py_div_def matmul_def FullQuadrotorDynamics_mixing_matrix_def np_transpose_def dot_def
      Let_def algebra_simps)

theorem forward_mixing_equations_witness:
  "k_torque Params_default \<noteq> 0
   \<and> FullQuadrotorDynamics_step_u Params_default [1, 2, 3, 4] =
       Inr (30 * k_thrust Params_default,
            [[arm_length Params_default * (- 12 * k_thrust Params_default)],
             [arm_length Params_default * (8 * k_thrust Params_default)],
             [k_thrust Params_default / k_torque Params_default
                * (- 10 * k_thrust Params_default)]])"
proof -
  have h: "k_torque Params_default \<noteq> 0"
    using k_torque_default_pos by simp
  show ?thesis
    using h forward_mixing_equations [OF h, of 1 2 3 4]
    by (simp add: Let_def algebra_simps)
qed


subsection \<open>Inverse rotor mixing\<close>

lemma linalg_inv_Controller_mixing_matrix:
  assumes "L \<noteq> 0" "k \<noteq> 0"
  shows "linalg_inv (Controller_mixing_matrix L k) =
           Inr [[1 / 4, 0, - 1 / (2 * L), 1 / (4 * k)],
                [1 / 4, 1 / (2 * L), 0, - 1 / (4 * k)],
                [1 / 4, 0, 1 / (2 * L), 1 / (4 * k)],
                [1 / 4, - 1 / (2 * L), 0, - 1 / (4 * k)]]"
proof -
  have d: "det (Controller_mixing_matrix L k) = - 8 * L * L * k"
    by (simp add: Controller_mixing_matrix_def upt_rec numeral_eq_Suc algebra_simps)
  have a: "adjugate (Controller_mixing_matrix L k) =
      [[- (L * (L * (k * 2))), 0, L * (k * 4), - (L * (L * 2))],
       [- (L * (L * (k * 2))), - (L * (k * 4)), 0, L * (L * 2)],
       [- (L * (L * (k * 2))), 0, - (L * (k * 4)), - (L * (L * 2))],
       [- (L * (L * (k * 2))), L * (k * 4), 0, L * (L * 2)]]"
    by (simp add: Controller_mixing_matrix_def adjugate_def minor_def upt_rec
        numeral_eq_Suc algebra_simps)
  have s: "is_square (Controller_mixing_matrix L k)"
    by (simp add: Controller_mixing_matrix_def is_square_def)
  show ?thesis
    unfolding linalg_inv_def a d using assms s
    by (simp add: field_simps)
qed

lemma zero_negative_force_eq:
  "i < length xs \<Longrightarrow> zero_negative_force i xs = Inr (xs[i := max (xs ! i) 0])"
  by (simp add: zero_negative_force_def max_def)

lemma fold_zero_negative_force:
  "fold_err zero_negative_force [0..<4] [a, b, c, d] =
     Inr [max a 0, max b 0, max c 0, max d 0]"
  by (simp add: upt_4 zero_negative_force_eq numeral_eq_Suc)

lemma limit_rotor_rate_eq:
  "i < length xs \<Longrightarrow> limit_rotor_rate cp i xs = Inr (xs[i := limited cp (xs ! i)])"
  by (simp add: limit_rotor_rate_def limited_def Let_def)

lemma fold_limit_rotor_rate:
  "fold_err (limit_rotor_rate cp) [0..<4] [a, b, c, d] =
     Inr [limited cp a, limited cp b, limited cp c, limited cp d]"
  by (simp add: upt_4 limit_rotor_rate_eq numeral_eq_Suc)

lemma matvec_inverse_mixing:
  "matvec [[1 / 4, 0, - 1 / (2 * L), 1 / (4 * k)],
           [1 / 4, 1 / (2 * L), 0, - 1 / (4 * k)],
           [1 / 4, 0, 1 / (2 * L), 1 / (4 * k)],
           [1 / 4, - 1 / (2 * L), 0, - 1 / (4 * k)]] [u1, u2, u3, u4] =
     Inr [u1 / 4 - u3 / (2 * L) + u4 / (4 * k),
          u1 / 4 + u2 / (2 * L) - u4 / (4 * k),
          u1 / 4 + u3 / (2 * L) + u4 / (4 * k),
          u1 / 4 - u2 / (2 * L) - u4 / (4 * k)]"
  by (simp add: matvec_def dot_def)

lemma inverse_mixed_forces:
  assumes "L \<noteq> 0" "k \<noteq> 0"
  shows "bind_err (linalg_inv (Controller_mixing_matrix L k))
           (\<lambda>inverse_matrix. matvec inverse_matrix [u1, u2, u3, u4]) =
         Inr [u1 / 4 - u3 / (2 * L) + u4 / (4 * k),
              u1 / 4 + u2 / (2 * L) - u4 / (4 * k),
              u1 / 4 + u3 / (2 * L) + u4 / (4 * k),
              u1 / 4 - u2 / (2 * L) - u4 / (4 * k)]"
  unfolding linalg_inv_Controller_mixing_matrix [OF assms] bind_err_Inr
  by (rule matvec_inverse_mixing)

lemma rotor_rates_from_u_eq:
  assumes "arm_length p \<noteq> 0" "k_torque p \<noteq> 0" "0 < k_thrust p"
  shows "rotor_rates_from_u p cp [u1, u2, u3, u4] =
     (let L = arm_length p; k = k_thrust p / k_torque p
      in Inr (map (\<lambda>f. limited cp (sqrt (max f 0 / k_thrust p)))
            [u1 / 4 - u3 / (2 * L) + u4 / (4 * k),
             u1 / 4 + u2 / (2 * L) - u4 / (4 * k),
             u1 / 4 + u3 / (2 * L) + u4 / (4 * k),
             u1 / 4 - u2 / (2 * L) - u4 / (4 * k)]))"
proof -
  define k where "k = k_thrust p / k_torque p"
  have k: "k \<noteq> 0"
    using assms by (simp add: k_def)
  have pd: "py_div (k_thrust p) (k_torque p) = Inr k"
    using assms(2) by (simp add: py_div_def k_def)
  have inv: "linalg_inv (Controller_mixing_matrix (arm_length p) k) =
      Inr [[1 / 4, 0, - 1 / (2 * arm_length p), 1 / (4 * k)],
           [1 / 4, 1 / (2 * arm_length p), 0, - 1 / (4 * k)],
           [1 / 4, 0, 1 / (2 * arm_length p), 1 / (4 * k)],
           [1 / 4, - 1 / (2 * arm_length p), 0, - 1 / (4 * k)]]"
    by (rule linalg_inv_Controller_mixing_matrix [OF assms(1) k])
  have nn: "\<And>x. \<not> max x 0 / k_thrust p < 0"
    using assms(3) by (simp add: not_less)
  have "rotor_rates_from_u p cp [u1, u2, u3, u4] =
      Inr (map (\<lambda>f. limited cp (sqrt (max f 0 / k_thrust p)))
            [u1 / 4 - u3 / (2 * arm_length p) + u4 / (4 * k),
             u1 / 4 + u2 / (2 * arm_length p) - u4 / (4 * k),
             u1 / 4 + u3 / (2 * arm_length p) + u4 / (4 * k),
             u1 / 4 - u2 / (2 * arm_length p) - u4 / (4 * k)])"
    unfolding rotor_rates_from_u_def Let_def pd bind_err_Inr inv matvec_inverse_mixing
      fold_zero_negative_force
    using assms(3)
    by (simp add: np_true_divide_def np_sqrt_def nn fold_limit_rotor_rate)
  then show ?thesis
    by (simp add: Let_def k_def)
qed

lemma limited_bounds:
  assumes "rotor_rate_min cp \<le> rotor_rate_max cp"
  shows "rotor_rate_min cp \<le> limited cp x \<and> limited cp x \<le> rotor_rate_max cp"
  using assms by (simp add: limited_def Let_def)

lemma limited_id:
  assumes "rotor_rate_min cp \<le> x" "x \<le> rotor_rate_max cp"
  shows "limited cp x = x"
  using assms by (simp add: limited_def Let_def)

text \<open>
  C4. For every input vector \<open>u = [u1, u2, u3, u4]\<close> the rotor-rate recovery of the
  controller inverts the mixing matrix (the forces \<open>F\<close> it obtains satisfy
  \<open>mixing_matrix @ F = u\<close>), replaces every force below zero by zero before the square
  root, so that no square root of a negative number is taken, returns
  \<open>sqrt (max force 0 / k_thrust)\<close> limited to the rotor-rate bounds for each rotor, and
  every returned rate lies in \<open>[rotor_rate_min, rotor_rate_max]\<close>. The parameters are
  those of a well-formed vehicle: arm length and torque coefficient not zero, thrust
  coefficient positive, \<open>rotor_rate_min \<le> rotor_rate_max\<close>.
\<close>

theorem rotor_rates_from_u_clamped:
  assumes "arm_length p \<noteq> 0" "k_torque p \<noteq> 0" "0 < k_thrust p"
    and "rotor_rate_min cp \<le> rotor_rate_max cp"
  shows
    "(let L = arm_length p; k = k_thrust p / k_torque p;
          M = Controller_mixing_matrix L k;
          force_array =
            [u1 / 4 - u3 / (2 * L) + u4 / (4 * k),
             u1 / 4 + u2 / (2 * L) - u4 / (4 * k),
             u1 / 4 + u3 / (2 * L) + u4 / (4 * k),
             u1 / 4 - u2 / (2 * L) - u4 / (4 * k)];
          rates = map (\<lambda>f. limited cp (sqrt (max f 0 / k_thrust p))) force_array
      in bind_err (linalg_inv M) (\<lambda>inverse_matrix. matvec inverse_matrix [u1, u2, u3, u4]) = Inr force_array
       \<and> matvec M force_array = Inr [u1, u2, u3, u4]
       \<and> list_all (\<lambda>f. 0 \<le> max f 0 / k_thrust p) force_array
       \<and> rotor_rates_from_u p cp [u1, u2, u3, u4] = Inr rates
       \<and> list_all (\<lambda>r. rotor_rate_min cp \<le> r \<and> r \<le> rotor_rate_max cp) rates)"
proof -
  define k where "k = k_thrust p / k_torque p"
  define L where "L = arm_length p"
  have k: "k \<noteq> 0"
    using assms by (simp add: k_def)
  have L: "L \<noteq> 0"
    using assms by (simp add: L_def)
  have fwd: "matvec (Controller_mixing_matrix L k)
      [u1 / 4 - u3 / (2 * L) + u4 / (4 * k),
       u1 / 4 + u2 / (2 * L) - u4 / (4 * k),
       u1 / 4 + u3 / (2 * L) + u4 / (4 * k),
       u1 / 4 - u2 / (2 * L) - u4 / (4 * k)] =
    Inr [u1, u2, u3, u4]"
    using L k
    by (simp add: Controller_mixing_matrix_def matvec_def dot_def field_simps)
  have nn: "\<And>x. 0 \<le> max x 0 / k_thrust p"
    using assms(3) by simp
  have rr: "rotor_rates_from_u p cp [u1, u2, u3, u4] =
      Inr (map (\<lambda>f. limited cp (sqrt (max f 0 / k_thrust p)))
            [u1 / 4 - u3 / (2 * L) + u4 / (4 * k),
             u1 / 4 + u2 / (2 * L) - u4 / (4 * k),
             u1 / 4 + u3 / (2 * L) + u4 / (4 * k),
             u1 / 4 - u2 / (2 * L) - u4 / (4 * k)])"
    using rotor_rates_from_u_eq [OF assms(1,2,3), of cp u1 u2 u3 u4]
    by (simp add: Let_def k_def L_def)
  show ?thesis
    unfolding Let_def k_def [symmetric] L_def [symmetric]
    using inverse_mixed_forces [OF L k, of u1 u2 u3 u4] fwd nn rr
      limited_bounds [OF assms(4)]
    by simp
qed

theorem rotor_rates_from_u_clamped_witness:
  "arm_length Params_default \<noteq> 0 \<and> k_torque Params_default \<noteq> 0
   \<and> 0 < k_thrust Params_default
   \<and> rotor_rate_min ControllerParams_default \<le> rotor_rate_max ControllerParams_default
   \<and> rotor_rates_from_u Params_default ControllerParams_default [- 4, 0, 0, 0] =
       Inr [180, 180, 180, 180]"
proof -
  have a: "arm_length Params_default \<noteq> 0"
    by (simp add: Params_default_def)
  have q: "k_torque Params_default \<noteq> 0"
    using k_torque_default_pos by simp
  have m: "rotor_rate_min ControllerParams_default \<le> rotor_rate_max ControllerParams_default"
    by (simp add: ControllerParams_default_def)
  have l: "limited ControllerParams_default 0 = 180"
    by (simp add: limited_def ControllerParams_default_def)
  show ?thesis
    using a q m k_thrust_default_pos
      rotor_rates_from_u_clamped [OF a q k_thrust_default_pos m, of "- 4" 0 0 0]
    by (simp add: Let_def l)
qed

subsection \<open>Mixing round trip\<close>

text \<open>
  C2. For four rotor rates that are not negative, whose thrusts \<open>k_thrust * r^2\<close> are all
  positive and which lie within \<open>[rotor_rate_min, rotor_rate_max]\<close>, the forward mixing
  of the dynamics followed by \<open>rotor_rates_from_u\<close> gives back the four rates (exactly,
  over the reals), and the dynamics and the controller use the same mixing matrix.
  Arm length and torque coefficient are not zero.
\<close>

theorem mixing_round_trip:
  assumes "arm_length p \<noteq> 0" "k_torque p \<noteq> 0"
    and "list_all (\<lambda>r. 0 \<le> r \<and> 0 < k_thrust p * r ^ 2
           \<and> rotor_rate_min cp \<le> r \<and> r \<le> rotor_rate_max cp) [r1, r2, r3, r4]"
  shows "FullQuadrotorDynamics_mixing_matrix = Controller_mixing_matrix
       \<and> (\<exists>u1 u2x u2y u2z.
            FullQuadrotorDynamics_step_u p [r1, r2, r3, r4] = Inr (u1, [[u2x], [u2y], [u2z]])
          \<and> rotor_rates_from_u p cp [u1, u2x, u2y, u2z] = Inr [r1, r2, r3, r4])"
proof -
  define k where "k = k_thrust p / k_torque p"
  define L where "L = arm_length p"
  define F1 where "F1 = k_thrust p * r1 ^ 2"
  define F2 where "F2 = k_thrust p * r2 ^ 2"
  define F3 where "F3 = k_thrust p * r3 ^ 2"
  define F4 where "F4 = k_thrust p * r4 ^ 2"
  have same: "FullQuadrotorDynamics_mixing_matrix = Controller_mixing_matrix"
    by (rule ext, rule ext)
      (simp add: FullQuadrotorDynamics_mixing_matrix_def Controller_mixing_matrix_def)
  have kt: "0 < k_thrust p"
    using assms(3) by (simp add: zero_less_mult_iff)
  have k: "k \<noteq> 0"
    using kt assms(2) by (simp add: k_def)
  have L: "L \<noteq> 0"
    using assms(1) by (simp add: L_def)
  have recover: "limited cp (sqrt (max (k_thrust p * r ^ 2) 0 / k_thrust p)) = r"
    if "0 \<le> r" "rotor_rate_min cp \<le> r" "r \<le> rotor_rate_max cp" for r
  proof -
    have "max (k_thrust p * r ^ 2) 0 = k_thrust p * r ^ 2"
      using kt by (intro max_absorb1) (simp add: zero_le_mult_iff)
    then show ?thesis
      using kt that by (simp add: limited_id)
  qed
  have fwd: "FullQuadrotorDynamics_step_u p [r1, r2, r3, r4] =
      Inr (F1 + F2 + F3 + F4, [[L * (F2 - F4)], [L * (F3 - F1)], [k * (F1 - F2 + F3 - F4)]])"
    unfolding F1_def F2_def F3_def F4_def k_def L_def
    by (rule FullQuadrotorDynamics_step_u_eq [OF assms(2)])
  have e1: "(F1 + F2 + F3 + F4) / 4 - L * (F3 - F1) / (2 * L)
              + k * (F1 - F2 + F3 - F4) / (4 * k) = F1"
    using L k by (simp add: field_simps)
  have e2: "(F1 + F2 + F3 + F4) / 4 + L * (F2 - F4) / (2 * L)
              - k * (F1 - F2 + F3 - F4) / (4 * k) = F2"
    using L k by (simp add: field_simps)
  have e3: "(F1 + F2 + F3 + F4) / 4 + L * (F3 - F1) / (2 * L)
              + k * (F1 - F2 + F3 - F4) / (4 * k) = F3"
    using L k by (simp add: field_simps)
  have e4: "(F1 + F2 + F3 + F4) / 4 - L * (F2 - F4) / (2 * L)
              - k * (F1 - F2 + F3 - F4) / (4 * k) = F4"
    using L k by (simp add: field_simps)
  have "rotor_rates_from_u p cp
          [F1 + F2 + F3 + F4, L * (F2 - F4), L * (F3 - F1), k * (F1 - F2 + F3 - F4)] =
        Inr (map (\<lambda>f. limited cp (sqrt (max f 0 / k_thrust p))) [F1, F2, F3, F4])"
    using rotor_rates_from_u_eq [OF assms(1,2) kt, of cp
        "F1 + F2 + F3 + F4" "L * (F2 - F4)" "L * (F3 - F1)" "k * (F1 - F2 + F3 - F4)"]
    unfolding Let_def k_def [symmetric] L_def [symmetric] e1 e2 e3 e4 .
  moreover have "limited cp (sqrt (max F1 0 / k_thrust p)) = r1"
    unfolding F1_def using assms(3) by (intro recover) simp_all
  moreover have "limited cp (sqrt (max F2 0 / k_thrust p)) = r2"
    unfolding F2_def using assms(3) by (intro recover) simp_all
  moreover have "limited cp (sqrt (max F3 0 / k_thrust p)) = r3"
    unfolding F3_def using assms(3) by (intro recover) simp_all
  moreover have "limited cp (sqrt (max F4 0 / k_thrust p)) = r4"
    unfolding F4_def using assms(3) by (intro recover) simp_all
  ultimately have "rotor_rates_from_u p cp
          [F1 + F2 + F3 + F4, L * (F2 - F4), L * (F3 - F1), k * (F1 - F2 + F3 - F4)] =
        Inr [r1, r2, r3, r4]"
    by (simp only: list.map)
  with fwd same show ?thesis
    by blast
qed

theorem mixing_round_trip_witness:
  "arm_length Params_default \<noteq> 0 \<and> k_torque Params_default \<noteq> 0
   \<and> list_all (\<lambda>r. 0 \<le> r \<and> 0 < k_thrust Params_default * r ^ 2
         \<and> rotor_rate_min ControllerParams_default \<le> r
         \<and> r \<le> rotor_rate_max ControllerParams_default) [200, 300, 400, 500]
   \<and> (\<exists>u1 u2x u2y u2z.
         FullQuadrotorDynamics_step_u Params_default [200, 300, 400, 500] =
           Inr (u1, [[u2x], [u2y], [u2z]])
       \<and> rotor_rates_from_u Params_default ControllerParams_default [u1, u2x, u2y, u2z] =
           Inr [200, 300, 400, 500])"
proof -
  have a: "arm_length Params_default \<noteq> 0"
    by (simp add: Params_default_def)
  have q: "k_torque Params_default \<noteq> 0"
    using k_torque_default_pos by simp
  have r: "list_all (\<lambda>r. 0 \<le> r \<and> 0 < k_thrust Params_default * r ^ 2
         \<and> rotor_rate_min ControllerParams_default \<le> r
         \<and> r \<le> rotor_rate_max ControllerParams_default) [200, 300, 400, 500]"
    using k_thrust_default_pos by (simp add: ControllerParams_default_def)
  show ?thesis
    using a q r mixing_round_trip [OF a q r]
    by simp
qed

subsection \<open>Hover\<close>

lemma length_3_obtain:
  assumes "length xs = 3"
  obtains a b c where "xs = [a, b, c]"
  using assms by (auto simp: numeral_3_eq_3 length_Suc_conv)

lemma has_shape_3_3_obtain:
  assumes "has_shape 3 3 A"
  obtains a1 a2 a3 b1 b2 b3 c1 c2 c3
  where "A = [[a1, a2, a3], [b1, b2, b3], [c1, c2, c3]]"
proof -
  from assms obtain r1 r2 r3 where A: "A = [r1, r2, r3]"
    by (auto simp: has_shape_def elim: length_3_obtain)
  with assms have "length r1 = 3" "length r2 = 3" "length r3 = 3"
    by (simp_all add: has_shape_def)
  then show thesis
    using A that by (auto elim!: length_3_obtain)
qed

text \<open>
  C5. When the reference handed to the controller has the position and the velocity
  of the actual state, the commanded acceleration \<open>K_d e_v + K_p e_p\<close> is the zero
  vector and the commanded thrust \<open>u_1\<close> is exactly \<open>mass * g\<close>; the torque commands are
  zero. Positions and velocities are 3-vectors and the gains 3x3 matrices.
\<close>

theorem hover_thrust:
  assumes "TrajectoryState.position trajectory = QuadrotorState.position s"
    and "TrajectoryState.velocity trajectory = QuadrotorState.velocity s"
    and "length (QuadrotorState.position s) = 3"
    and "length (QuadrotorState.velocity s) = 3"
    and "has_shape 3 3 (K_p cp)" and "has_shape 3 3 (K_d cp)"
  shows "Controller_commanded_acceleration cp trajectory s = Inr [0, 0, 0]
       \<and> Controller_u p cp trajectory s = Inr [mass p * g p, 0, 0, 0]"
proof -
  from assms(3) obtain x y z where pos: "QuadrotorState.position s = [x, y, z]"
    by (rule length_3_obtain)
  from assms(4) obtain vx vy vz where vel: "QuadrotorState.velocity s = [vx, vy, vz]"
    by (rule length_3_obtain)
  from assms(5) obtain a1 a2 a3 b1 b2 b3 c1 c2 c3
    where Kp: "K_p cp = [[a1, a2, a3], [b1, b2, b3], [c1, c2, c3]]"
    by (rule has_shape_3_3_obtain)
  from assms(6) obtain d1 d2 d3 e1 e2 e3 f1 f2 f3
    where Kd: "K_d cp = [[d1, d2, d3], [e1, e2, e3], [f1, f2, f3]]"
    by (rule has_shape_3_3_obtain)
  have acc: "Controller_commanded_acceleration cp trajectory s = Inr [0, 0, 0]"
    by (simp add: Controller_commanded_acceleration_def Let_def assms(1,2) pos vel Kp Kd
        np_sub_def np_add_def matvec_def dot_def)
  then show ?thesis
    by (simp add: Controller_u_def Let_def)
qed

theorem hover_thrust_witness:
  "Controller_commanded_acceleration ControllerParams_default
     \<lparr> time = 2, position = [0, 0, 1], velocity = [0, 0, 0] \<rparr>
     \<lparr> position = [0, 0, 1], orientation = [0, 0, 0, 1], velocity = [0, 0, 0],
       angular_velocity = [0, 0, 0] \<rparr> = Inr [0, 0, 0]
   \<and> Controller_u Params_default ControllerParams_default
     \<lparr> time = 2, position = [0, 0, 1], velocity = [0, 0, 0] \<rparr>
     \<lparr> position = [0, 0, 1], orientation = [0, 0, 0, 1], velocity = [0, 0, 0],
       angular_velocity = [0, 0, 0] \<rparr> = Inr [1352 / 1000 * (980665 / 100000), 0, 0, 0]"
  using hover_thrust [of
      "\<lparr> time = 2, position = [0, 0, 1], velocity = [0, 0, 0] \<rparr>"
      "\<lparr> position = [0, 0, 1], orientation = [0, 0, 0, 1], velocity = [0, 0, 0],
         angular_velocity = [0, 0, 0] \<rparr>"
      ControllerParams_default Params_default]
  by (simp add: has_shape_def ControllerParams_default_def Params_default_def)

subsection \<open>Evaluating the examples\<close>

lemma np_transpose_3x4:
  "np_transpose [[a1, a2, a3, a4], [b1, b2, b3, b4], [c1, c2, c3, c4]] =
     [[a1, b1, c1], [a2, b2, c2], [a3, b3, c3], [a4, b4, c4]]"
  by (simp add: np_transpose_def numeral_eq_Suc)

lemma dRot3_eq:
  "dRot3 [q0, q1, q2, q3] [wx, wy, wz] =
     Inr [(q3 * wx - q2 * wy + q1 * wz) / 2,
          (q2 * wx + q3 * wy - q0 * wz) / 2,
          (- q1 * wx + q0 * wy + q3 * wz) / 2,
          (- q0 * wx - q1 * wy - q2 * wz) / 2]"
  by (simp add: dRot3_def Let_def np_transpose_3x4 matvec_def dot_def)

lemma Params_planar_default_fields:
  "mass Params_planar_default = 1352 / 1000"
  "inertia Params_planar_default = 98 / 1000"
  "arm_length Params_planar_default = 1907 / 10000"
  "g Params_planar_default = 980665 / 100000"
  by (simp_all add: Params_planar_default_def)

lemma Params_default_fields:
  "mass Params_default = 1352 / 1000"
  "inertia Params_default = [[98 / 10000, 0, 0], [0, 1002 / 100000, 0], [0, 0, 186 / 10000]]"
  "arm_length Params_default = 1907 / 10000"
  "g Params_default = 980665 / 100000"
  by (simp_all add: Params_default_def)

lemma externals_example_fields:
  "solve_ivp externals_example = euler_ivp"
  "to_state_vector externals_example = pack_state"
  "from_state_vector externals_example = unpack_state"
  "Rot3_mul externals_example = quat_rotate"
  "to_yaw_pitch_roll externals_example = y_axis_yaw_pitch_roll"
  by (simp_all add: externals_example_def)


lemmas step_evaluation =
  Let_def externals_example_fields dynamics_at_rest_def
  euler_ivp_def pack_state_def unpack_state_def state_at_rest_def quat_rotate_def
  times_vec_def dot_def np_add_def np_true_divide_def np_transpose_def matvec_def
  np_cross_def np_sub_def np_div_def dRot3_eq last_column_def

subsection \<open>Quaternion derivative\<close>

text \<open>
  The derivative that \<open>dRot3\<close> computes is orthogonal to the quaternion, so the exact
  solution of the orientation equation keeps its norm. Neither step renormalizes the
  quaternion it gets back from the integrator.
\<close>

lemma dRot3_orthogonal:
  "\<exists>quat_dot. dRot3 [q0, q1, q2, q3] [wx, wy, wz] = Inr quat_dot
     \<and> dot [q0, q1, q2, q3] quat_dot = 0"
proof -
  have "q0 * ((q3 * wx - q2 * wy + q1 * wz) / 2) + (q1 * ((q2 * wx + q3 * wy - q0 * wz) / 2)
      + (q2 * ((- q1 * wx + q0 * wy + q3 * wz) / 2)
      + (q3 * ((- q0 * wx - q1 * wy - q2 * wz) / 2) + 0))) = 0"
    by (simp add: field_simps)
  then show ?thesis
    by (simp add: dRot3_eq dot_def)
qed

subsection \<open>Equations of motion\<close>

lemma det3:
  "det [[a1, a2, a3], [b1, b2, b3], [c1, c2, c3]] =
     a1 * (b2 * c3 - b3 * c2) - a2 * (b1 * c3 - b3 * c1) + a3 * (b1 * c2 - b2 * c1)"
  by (simp add: upt_rec numeral_eq_Suc algebra_simps)

lemma adjugate3:
  "adjugate [[a1, a2, a3], [b1, b2, b3], [c1, c2, c3]] =
     [[b2 * c3 - b3 * c2, a3 * c2 - a2 * c3, a2 * b3 - a3 * b2],
      [b3 * c1 - b1 * c3, a1 * c3 - a3 * c1, a3 * b1 - a1 * b3],
      [b1 * c2 - b2 * c1, a2 * c1 - a1 * c2, a1 * b2 - a2 * b1]]"
  by (simp add: adjugate_def minor_def upt_rec numeral_eq_Suc algebra_simps)

lemma linalg_inv_3:
  assumes "det [[a1, a2, a3], [b1, b2, b3], [c1, c2, c3]] = D" "D \<noteq> 0"
  shows "linalg_inv [[a1, a2, a3], [b1, b2, b3], [c1, c2, c3]] =
     Inr [[(b2 * c3 - b3 * c2) / D, (a3 * c2 - a2 * c3) / D, (a2 * b3 - a3 * b2) / D],
          [(b3 * c1 - b1 * c3) / D, (a1 * c3 - a3 * c1) / D, (a3 * b1 - a1 * b3) / D],
          [(b1 * c2 - b2 * c1) / D, (a2 * c1 - a1 * c2) / D, (a1 * b2 - a2 * b1) / D]]"
  unfolding linalg_inv_def adjugate3 assms(1)
  using assms(2) by (simp add: is_square_def)

lemma times_inverse_3:
  assumes "det [[a1, a2, a3], [b1, b2, b3], [c1, c2, c3]] = D" "D \<noteq> 0"
  shows "times_vec [[a1, a2, a3], [b1, b2, b3], [c1, c2, c3]]
           (times_vec
              [[(b2 * c3 - b3 * c2) / D, (a3 * c2 - a2 * c3) / D, (a2 * b3 - a3 * b2) / D],
               [(b3 * c1 - b1 * c3) / D, (a1 * c3 - a3 * c1) / D, (a3 * b1 - a1 * b3) / D],
               [(b1 * c2 - b2 * c1) / D, (a2 * c1 - a1 * c2) / D, (a1 * b2 - a2 * b1) / D]]
              [x, y, z]) = [x, y, z]"
proof -
  define i where "i = inverse D"
  have iD: "D * i = 1"
    using assms(2) by (simp add: i_def)
  have D: "D = a1 * (b2 * c3 - b3 * c2) - a2 * (b1 * c3 - b3 * c1) + a3 * (b1 * c2 - b2 * c1)"
    using assms(1) by (simp add: det3)
  have e1: "a1 * ((b2 * c3 - b3 * c2) * i * x + (a3 * c2 - a2 * c3) * i * y + (a2 * b3 - a3 * b2) * i * z)
      + a2 * ((b3 * c1 - b1 * c3) * i * x + (a1 * c3 - a3 * c1) * i * y + (a3 * b1 - a1 * b3) * i * z)
      + a3 * ((b1 * c2 - b2 * c1) * i * x + (a2 * c1 - a1 * c2) * i * y + (a1 * b2 - a2 * b1) * i * z)
      = D * i * x"
    unfolding D by (simp add: algebra_simps)
  have e2: "b1 * ((b2 * c3 - b3 * c2) * i * x + (a3 * c2 - a2 * c3) * i * y + (a2 * b3 - a3 * b2) * i * z)
      + b2 * ((b3 * c1 - b1 * c3) * i * x + (a1 * c3 - a3 * c1) * i * y + (a3 * b1 - a1 * b3) * i * z)
      + b3 * ((b1 * c2 - b2 * c1) * i * x + (a2 * c1 - a1 * c2) * i * y + (a1 * b2 - a2 * b1) * i * z)
      = D * i * y"
    unfolding D by (simp add: algebra_simps)
  have e3: "c1 * ((b2 * c3 - b3 * c2) * i * x + (a3 * c2 - a2 * c3) * i * y + (a2 * b3 - a3 * b2) * i * z)
      + c2 * ((b3 * c1 - b1 * c3) * i * x + (a1 * c3 - a3 * c1) * i * y + (a3 * b1 - a1 * b3) * i * z)
      + c3 * ((b1 * c2 - b2 * c1) * i * x + (a2 * c1 - a1 * c2) * i * y + (a1 * b2 - a2 * b1) * i * z)
      = D * i * z"
    unfolding D by (simp add: algebra_simps)
  show ?thesis
    unfolding times_vec_def dot_def divide_inverse i_def [symmetric]
    using e1 e2 e3 by (simp add: iD add.assoc)
qed


lemma length_4_obtain:
  assumes "length xs = 4"
  obtains a b c d where "xs = [a, b, c, d]"
  using assms by (auto simp: numeral_eq_Suc length_Suc_conv)

text \<open>
  C3. For every vehicle state and actuation \<open>(u1, u2)\<close> the state derivative of the full
  dynamics is the one of the equations of motion: the derivative of the position is
  the velocity; the derivative of the velocity is
  \<open>([0, 0, -mass * g] + R * [0, 0, u1]) / mass\<close> with \<open>R\<close> the orientation of the state;
  the derivative \<open>a\<close> of the angular velocity is \<open>I^-1 (u2 - omega x (I omega))\<close>, that is,
  \<open>I a = u2 - omega x (I omega)\<close>. The mass is not zero, the inertia is an invertible 3x3
  matrix, and the state has a quaternion of four and vectors of three entries.
\<close>

theorem state_derivative_equations:
  assumes "mass p \<noteq> 0" "has_shape 3 3 (inertia p)" "det (inertia p) \<noteq> 0"
    and "length (orientation s) = 4" "length (angular_velocity s) = 3"
    and "length (Rot3_mul ext (orientation s) [0, 0, u1]) = 3"
  shows "\<exists>d. FullQuadrotorDynamics_state_derivative ext p s u1 [[tx], [ty], [tz]] = Inr d
           \<and> position d = velocity s
           \<and> velocity d = eom_velocity_dot ext p s u1
           \<and> times_vec (inertia p) (angular_velocity d) = eom_net_torque p s [tx, ty, tz]"
proof -
  from assms(2) obtain a1 a2 a3 b1 b2 b3 c1 c2 c3
    where I: "inertia p = [[a1, a2, a3], [b1, b2, b3], [c1, c2, c3]]"
    by (rule has_shape_3_3_obtain)
  from assms(4) obtain q0 q1 q2 q3 where q: "orientation s = [q0, q1, q2, q3]"
    by (rule length_4_obtain)
  from assms(5) obtain wx wy wz where w: "angular_velocity s = [wx, wy, wz]"
    by (rule length_3_obtain)
  from assms(6) obtain rx ry rz where r: "Rot3_mul ext [q0, q1, q2, q3] [0, 0, u1] = [rx, ry, rz]"
    unfolding q by (rule length_3_obtain)
  define D where "D = det [[a1, a2, a3], [b1, b2, b3], [c1, c2, c3]]"
  have D0: "D \<noteq> 0"
    using assms(3) by (simp add: D_def I)
  define B where "B =
     [[(b2 * c3 - b3 * c2) / D, (a3 * c2 - a2 * c3) / D, (a2 * b3 - a3 * b2) / D],
      [(b3 * c1 - b1 * c3) / D, (a1 * c3 - a3 * c1) / D, (a3 * b1 - a1 * b3) / D],
      [(b1 * c2 - b2 * c1) / D, (a2 * c1 - a1 * c2) / D, (a1 * b2 - a2 * b1) / D]]"
  have inv: "linalg_inv [[a1, a2, a3], [b1, b2, b3], [c1, c2, c3]] = Inr B"
    unfolding B_def by (rule linalg_inv_3 [OF D_def [symmetric] D0])
  define torque where "torque = eom_net_torque p s [tx, ty, tz]"
  obtain m1 m2 m3 where torque: "torque = [m1, m2, m3]"
    by (simp add: torque_def eom_net_torque_def cross3_def times_vec_def I w)
  have mv: "matvec B torque = Inr (times_vec B torque)"
    by (simp add: matvec_def times_vec_def B_def torque)
  have solve: "times_vec [[a1, a2, a3], [b1, b2, b3], [c1, c2, c3]] (times_vec B torque) = torque"
    unfolding B_def torque by (rule times_inverse_3 [OF D_def [symmetric] D0])
  have total: "np_add [0, 0, mass p * g p * - 1] (Rot3_mul ext (orientation s) [0, 0, u1]) =
      Inr (map2 (+) [0, 0, - (mass p * g p)] (Rot3_mul ext (orientation s) [0, 0, u1]))"
    by (simp add: np_add_def q r)
  have accel: "np_true_divide
      (map2 (+) [0, 0, - (mass p * g p)] (Rot3_mul ext (orientation s) [0, 0, u1])) (mass p) =
      Inr (eom_velocity_dot ext p s u1)"
    using assms(1) by (simp add: np_true_divide_def eom_velocity_dot_def)
  have M: "(case np_transpose [[tx], [ty], [tz]] of [] \<Rightarrow> Inl IndexError | row # _ \<Rightarrow> Inr row) =
      Inr [tx, ty, tz]"
    by (simp add: np_transpose_def)
  have inv': "linalg_inv (inertia p) = Inr B"
    using inv by (simp add: I)
  have momentum: "matvec (inertia p) (angular_velocity s) =
      Inr (times_vec (inertia p) (angular_velocity s))"
    by (simp add: matvec_def times_vec_def I w)
  have gyro: "np_cross (angular_velocity s) (times_vec (inertia p) (angular_velocity s)) =
      Inr (cross3 (angular_velocity s) (times_vec (inertia p) (angular_velocity s)))"
    by (simp add: np_cross_def cross3_def times_vec_def I w)
  have sub: "np_sub [tx, ty, tz]
      (cross3 (angular_velocity s) (times_vec (inertia p) (angular_velocity s))) = Inr torque"
    by (simp add: np_sub_def torque_def eom_net_torque_def cross3_def)
  have quat: "dRot3 (orientation s) (angular_velocity s) =
      Inr (map (\<lambda>x. x / 2)
        (times_vec (np_transpose [[q3, q2, - q1, - q0], [- q2, q3, q0, - q1], [q1, - q0, q3, - q2]])
           [wx, wy, wz]))"
    by (simp add: dRot3_def Let_def q w matvec_def times_vec_def np_transpose_def)
  have "FullQuadrotorDynamics_state_derivative ext p s u1 [[tx], [ty], [tz]] =
      Inr \<lparr> position = velocity s,
            orientation = map (\<lambda>x. x / 2)
              (times_vec (np_transpose [[q3, q2, - q1, - q0], [- q2, q3, q0, - q1], [q1, - q0, q3, - q2]])
                 [wx, wy, wz]),
            velocity = eom_velocity_dot ext p s u1,
            angular_velocity = times_vec B torque \<rparr>"
    unfolding FullQuadrotorDynamics_state_derivative_def Let_def total bind_err_Inr accel M
      inv' momentum gyro sub mv quat ..
  then show ?thesis
    using solve by (simp add: I torque_def)
qed

theorem state_derivative_equations_witness:
  "mass Params_default \<noteq> 0 \<and> has_shape 3 3 (inertia Params_default)
   \<and> det (inertia Params_default) \<noteq> 0
   \<and> (\<exists>d. FullQuadrotorDynamics_state_derivative externals_example Params_default
              \<lparr> position = [0, 0, 0], orientation = [0, 0, 0, 1], velocity = [1, 2, 3],
                angular_velocity = [1, 0, 0] \<rparr>
              2 [[1], [0], [0]] = Inr d
          \<and> position d = [1, 2, 3]
          \<and> velocity d = [0, 0, (2 - 1352 / 1000 * (980665 / 100000)) / (1352 / 1000)]
          \<and> times_vec (inertia Params_default) (angular_velocity d) = [1, 0, 0])"
proof -
  let ?s = "\<lparr> position = [0, 0, 0], orientation = [0, 0, 0, 1], velocity = [1, 2, 3],
              angular_velocity = [1, 0, 0] \<rparr>"
  have m: "mass Params_default \<noteq> 0"
    by (simp add: Params_default_fields)
  have sh: "has_shape 3 3 (inertia Params_default)"
    by (simp add: Params_default_fields has_shape_def)
  have dt: "det (inertia Params_default) \<noteq> 0"
    by (simp add: Params_default_fields det3)
  have l: "length (orientation ?s) = 4" "length (angular_velocity ?s) = 3"
    "length (Rot3_mul externals_example (orientation ?s) [0, 0, 2]) = 3"
    by (simp_all add: externals_example_fields quat_rotate_def times_vec_def)
  have v: "eom_velocity_dot externals_example Params_default ?s 2 =
      [0, 0, (2 - 1352 / 1000 * (980665 / 100000)) / (1352 / 1000)]"
    by (simp add: eom_velocity_dot_def externals_example_fields
        quat_rotate_def times_vec_def dot_def Params_default_fields)
  have t: "eom_net_torque Params_default ?s [1, 0, 0] = [1, 0, 0]"
    by (simp add: eom_net_torque_def cross3_def times_vec_def dot_def
        Params_default_fields)
  show ?thesis
    using m sh dt state_derivative_equations [OF m sh dt l, of 1 0 0]
    by (simp add: v t)
qed

subsection \<open>The planar step reads two rotor rates\<close>

text \<open>
  C10. The planar dynamics step depends on the rotor commands only through the first
  two rotor rates: two commands whose rotor rates agree in the first two entries, and
  differ arbitrarily after them, give the same result of
  \<open>PlanarQuadrotorDynamics.step\<close> from every state.
\<close>

theorem planar_step_reads_two_rates:
  assumes "take 2 (rotor_rates c1) = take 2 (rotor_rates c2)"
  shows "PlanarQuadrotorDynamics_step ext p self t c1 =
         PlanarQuadrotorDynamics_step ext p self t c2"
  using assms
  by (simp add: PlanarQuadrotorDynamics_step_def PlanarQuadrotorDynamics_step_u_def)

theorem planar_step_reads_two_rates_witness:
  "take 2 (rotor_rates \<lparr> rotor_rates = [1, 2, 3, 4] \<rparr>) =
     take 2 (rotor_rates \<lparr> rotor_rates = [1, 2, 5, 6] \<rparr>)
   \<and> PlanarQuadrotorDynamics_step externals_example Params_planar_default dynamics_at_rest 0
       \<lparr> rotor_rates = [1, 2, 3, 4] \<rparr> =
     PlanarQuadrotorDynamics_step externals_example Params_planar_default dynamics_at_rest 0
       \<lparr> rotor_rates = [1, 2, 5, 6] \<rparr>
   \<and> (\<exists>d. PlanarQuadrotorDynamics_step externals_example Params_planar_default
              dynamics_at_rest 0 \<lparr> rotor_rates = [1, 2, 5, 6] \<rparr> = Inr d)"
proof -
  have e: "take 2 (rotor_rates \<lparr> rotor_rates = [1, 2, 3, 4] \<rparr>) =
      take 2 (rotor_rates \<lparr> rotor_rates = [1, 2, 5, 6] \<rparr>)"
    by simp
  have r: "\<exists>d. PlanarQuadrotorDynamics_step externals_example Params_planar_default
              dynamics_at_rest 0 \<lparr> rotor_rates = [1, 2, 5, 6] \<rparr> = Inr d"
    by (simp add: PlanarQuadrotorDynamics_step_def PlanarQuadrotorDynamics_step_u_def
        rotor_thrust_model_def np_scale_def np_square_def
        PlanarQuadrotorDynamics_step_state_derivative_def
        PlanarQuadrotorDynamics_state_derivative_def y_axis_yaw_pitch_roll_def
        Params_planar_default_fields step_evaluation)
  show ?thesis
    using e r planar_step_reads_two_rates [OF e, of externals_example Params_planar_default
        dynamics_at_rest 0]
    by simp
qed

subsection \<open>Failure handling of a step\<close>

text \<open>
  Neither dynamics step checks for values that are not finite, and neither reads the
  status of the solver. Whenever the rotor mixing succeeds and \<open>solve_ivp\<close> returns a
  solution, the step stores and returns the state unpacked from the last column of
  that solution, whatever the solver's success flag and status say.
\<close>

lemma step_returns_solver_output:
  "(FullQuadrotorDynamics_step_u p (rotor_rates input) = Inr (u1, u2) \<longrightarrow>
    solve_ivp ext (FullQuadrotorDynamics_step_state_derivative ext p u1 u2) (0, dt self)
      (to_state_vector ext (state self)) = Inr solution \<longrightarrow>
    last_column (sol_y solution) = Inr final \<longrightarrow>
    FullQuadrotorDynamics_step ext p self t input =
      Inr (self \<lparr> state := from_state_vector ext final \<rparr>))
   \<and> (PlanarQuadrotorDynamics_step_u p' (rotor_rates input) = Inr (w1, w2) \<longrightarrow>
    solve_ivp ext (PlanarQuadrotorDynamics_step_state_derivative ext p' w1 w2) (0, dt self)
      (to_state_vector ext (state self)) = Inr solution \<longrightarrow>
    last_column (sol_y solution) = Inr final \<longrightarrow>
    PlanarQuadrotorDynamics_step ext p' self t input =
      Inr (self \<lparr> state := from_state_vector ext final \<rparr>))"
  by (simp add: FullQuadrotorDynamics_step_def PlanarQuadrotorDynamics_step_def Let_def)

lemma step_returns_solver_output_example:
  "FullQuadrotorDynamics_step_u Params_default (rotor_rates \<lparr> rotor_rates = [0, 0, 0, 0] \<rparr>) =
     Inr (0, [[0], [0], [0]])
   \<and> solve_ivp externals_example
       (FullQuadrotorDynamics_step_state_derivative externals_example Params_default
          0 [[0], [0], [0]])
       (0, dt dynamics_at_rest) (to_state_vector externals_example (state dynamics_at_rest)) =
     Inr \<lparr> sol_t = [0, 1 / 100],
           sol_y = [[0, 0], [0, 0], [0, 0], [0, 0], [0, 0], [0, 0], [1, 1], [0, 0], [0, 0],
                    [0, - (980665 / 10000000)], [0, 0], [0, 0], [0, 0]],
           sol_status = 0, sol_success = True \<rparr>
   \<and> FullQuadrotorDynamics_step externals_example Params_default dynamics_at_rest 0
       \<lparr> rotor_rates = [0, 0, 0, 0] \<rparr> =
     Inr (dynamics_at_rest \<lparr> state := state_at_rest
            \<lparr> velocity := [0, 0, - (980665 / 10000000)] \<rparr> \<rparr>)
   \<and> PlanarQuadrotorDynamics_step_u Params_planar_default
       (rotor_rates \<lparr> rotor_rates = [0, 0, 0, 0] \<rparr>) = Inr (0, 0)
   \<and> PlanarQuadrotorDynamics_step externals_example Params_planar_default dynamics_at_rest 0
       \<lparr> rotor_rates = [0, 0, 0, 0] \<rparr> =
     Inr (dynamics_at_rest \<lparr> state := state_at_rest
            \<lparr> velocity := [0, 0, - (980665 / 10000000)] \<rparr> \<rparr>)"
proof -
  let ?sol = "\<lparr> sol_t = [0, 1 / 100],
           sol_y = [[0, 0], [0, 0], [0, 0], [0, 0], [0, 0], [0, 0], [1, 1], [0, 0], [0, 0],
                    [0, - (980665 / 10000000)], [0, 0], [0, 0], [0, 0 :: real]],
           sol_status = 0, sol_success = True \<rparr>"
  let ?final = "[0, 0, 0, 0, 0, 0, 1, 0, 0, - (980665 / 10000000), 0, 0, 0 :: real]"
  have q: "k_torque Params_default \<noteq> 0"
    using k_torque_default_pos by simp
  have u: "FullQuadrotorDynamics_step_u Params_default (rotor_rates \<lparr> rotor_rates = [0, 0, 0, 0] \<rparr>) =
      Inr (0, [[0], [0], [0]])"
    by (simp add: FullQuadrotorDynamics_step_u_eq [OF q])
  have s: "solve_ivp externals_example
       (FullQuadrotorDynamics_step_state_derivative externals_example Params_default
          0 [[0], [0], [0]])
       (0, dt dynamics_at_rest) (to_state_vector externals_example (state dynamics_at_rest)) =
     Inr ?sol"
    by (simp add: FullQuadrotorDynamics_step_state_derivative_def
        FullQuadrotorDynamics_state_derivative_def Params_default_fields
        linalg_inv_3 [OF refl] det3 step_evaluation)
  have l: "last_column (sol_y ?sol) = Inr ?final"
    by (simp add: last_column_def)
  have w: "PlanarQuadrotorDynamics_step_u Params_planar_default
       (rotor_rates \<lparr> rotor_rates = [0, 0, 0, 0] \<rparr>) = Inr (0, 0)"
    by (simp add: PlanarQuadrotorDynamics_step_u_def rotor_thrust_model_def np_scale_def
        np_square_def)
  have s': "solve_ivp externals_example
       (PlanarQuadrotorDynamics_step_state_derivative externals_example Params_planar_default
          0 0)
       (0, dt dynamics_at_rest) (to_state_vector externals_example (state dynamics_at_rest)) =
     Inr ?sol"
    by (simp add: PlanarQuadrotorDynamics_step_state_derivative_def
        PlanarQuadrotorDynamics_state_derivative_def y_axis_yaw_pitch_roll_def
        Params_planar_default_fields step_evaluation)
  have f: "dynamics_at_rest \<lparr> state := from_state_vector externals_example ?final \<rparr> =
      dynamics_at_rest \<lparr> state := state_at_rest \<lparr> velocity := [0, 0, - (980665 / 10000000)] \<rparr> \<rparr>"
    by (simp add: externals_example_fields unpack_state_def state_at_rest_def)
  show ?thesis
    using u s w
      step_returns_solver_output [THEN conjunct1, rule_format, OF u s l, of 0]
      step_returns_solver_output [THEN conjunct2, rule_format, OF w s' l, of 0]
    unfolding f by simp
qed

subsection \<open>Construction\<close>

lemma det_mixing_zero_arm: "det (Controller_mixing_matrix 0 k) = 0"
  by (simp add: Controller_mixing_matrix_def upt_rec numeral_eq_Suc)

text \<open>
  C8 (amended). Construction validates nothing: \<open>Params\<close>, \<open>ControllerParams\<close>,
  \<open>FullQuadrotorDynamics\<close> and \<open>PlanarQuadrotorDynamics\<close> are constructed for every
  configuration. A torque coefficient \<open>k_torque\<close> of zero raises \<open>ZeroDivisionError\<close>,
  and an arm length of zero \<open>LinAlgError\<close>, only when a tick computes the mixing, in
  \<open>FullQuadrotorDynamics.step\<close> and in \<open>Controller.rotor_rates_from_u\<close>.
\<close>

theorem construction_accepts_every_configuration:
  "Params_init m i d ct cq l gr r =
     Inr \<lparr> mass = m, inertia = i, rotor_diameter = d, static_thrust_coefficient = ct,
           static_torque_coefficient = cq, arm_length = l, g = gr, rho = r \<rparr>
   \<and> ControllerParams_init kp kd lo hi =
     Inr \<lparr> K_p = kp, K_d = kd, rotor_rate_min = lo, rotor_rate_max = hi \<rparr>
   \<and> FullQuadrotorDynamics_init base = Inr base
   \<and> PlanarQuadrotorDynamics_init base = Inr base
   \<and> (k_torque p = 0 \<longrightarrow>
        FullQuadrotorDynamics_step ext p self t \<lparr> rotor_rates = [r1, r2, r3, r4] \<rparr> =
          Inl ZeroDivisionError
      \<and> rotor_rates_from_u p cp u = Inl ZeroDivisionError)
   \<and> (k_torque p \<noteq> 0 \<and> arm_length p = 0 \<longrightarrow>
        rotor_rates_from_u p cp u = Inl LinAlgError)"
  by (simp add: Params_init_def ControllerParams_init_def FullQuadrotorDynamics_init_def
      PlanarQuadrotorDynamics_init_def FullQuadrotorDynamics_step_def
      FullQuadrotorDynamics_step_u_def rotor_thrust_model_def np_scale_def np_square_def
      rotor_rates_from_u_def py_div_def Let_def linalg_inv_def det_mixing_zero_arm)

theorem construction_accepts_every_configuration_witness:
  "k_torque (Params_default \<lparr> static_torque_coefficient := 0 \<rparr>) = 0
   \<and> FullQuadrotorDynamics_step externals_example
       (Params_default \<lparr> static_torque_coefficient := 0 \<rparr>) dynamics_at_rest 0
       \<lparr> rotor_rates = [1, 1, 1, 1] \<rparr> = Inl ZeroDivisionError
   \<and> rotor_rates_from_u (Params_default \<lparr> static_torque_coefficient := 0 \<rparr>)
       ControllerParams_default [1, 0, 0, 0] = Inl ZeroDivisionError
   \<and> k_torque (Params_default \<lparr> arm_length := 0 \<rparr>) \<noteq> 0
   \<and> arm_length (Params_default \<lparr> arm_length := 0 \<rparr>) = 0
   \<and> rotor_rates_from_u (Params_default \<lparr> arm_length := 0 \<rparr>)
       ControllerParams_default [1, 0, 0, 0] = Inl LinAlgError"
proof -
  have z: "k_torque (Params_default \<lparr> static_torque_coefficient := 0 \<rparr>) = 0"
    by (simp add: k_torque_def rotor_model_def)
  have "k_torque (Params_default \<lparr> arm_length := 0 \<rparr>) = k_torque Params_default"
    by (simp add: k_torque_def rotor_model_def)
  then have n: "k_torque (Params_default \<lparr> arm_length := 0 \<rparr>) \<noteq> 0
      \<and> arm_length (Params_default \<lparr> arm_length := 0 \<rparr>) = 0"
    using k_torque_default_pos by simp
  show ?thesis
    using z n
      construction_accepts_every_configuration [THEN conjunct2, THEN conjunct2,
        THEN conjunct2, THEN conjunct2, THEN conjunct1, rule_format, OF z,
        of externals_example dynamics_at_rest 0 1 1 1 1 ControllerParams_default "[1, 0, 0, 0]"]
      construction_accepts_every_configuration [THEN conjunct2, THEN conjunct2,
        THEN conjunct2, THEN conjunct2, THEN conjunct2, rule_format, OF n,
        of ControllerParams_default "[1, 0, 0, 0]"]
    by simp
qed

text \<open>
  A configuration with mass zero, the zero matrix as inertia, arm length zero and
  torque coefficient zero is constructed like any other.
\<close>

theorem construction_accepts_invalid_counterexample:
  "Params_init 0 [[0, 0, 0], [0, 0, 0], [0, 0, 0]] (254 / 1000) (14553 / 100000) 0 0
     (980665 / 100000) (1225 / 1000) =
     Inr \<lparr> mass = 0, inertia = [[0, 0, 0], [0, 0, 0], [0, 0, 0]],
           rotor_diameter = 254 / 1000, static_thrust_coefficient = 14553 / 100000,
           static_torque_coefficient = 0, arm_length = 0, g = 980665 / 100000,
           rho = 1225 / 1000 \<rparr>
   \<and> det [[0, 0, 0], [0, 0, 0], [0, 0, 0]] = 0
   \<and> k_torque \<lparr> mass = 0, inertia = [[0, 0, 0], [0, 0, 0], [0, 0, 0 :: real]],
           rotor_diameter = 254 / 1000, static_thrust_coefficient = 14553 / 100000,
           static_torque_coefficient = 0, arm_length = 0, g = 980665 / 100000,
           rho = 1225 / 1000 \<rparr> = 0"
  by (simp add: Params_init_def det3 k_torque_def rotor_model_def)

subsection \<open>Determinism\<close>







end
